theory Spec2Isabelle
  imports Complex_Main "HOL-Library.Sublist" "HOL-Library.AList"
begin

section \<open>The Corsi progression engine (corsi-backend/corsi\_engine.py)\<close>

subsection \<open>Configuration constants\<close>

text \<open>The class attributes of \<^verbatim>\<open>CorsiEngine\<close>; Python integers are unbounded.\<close>

definition MIN_SPAN :: int where
  "MIN_SPAN = 2"

definition MAX_SPAN :: int where
  "MAX_SPAN = 8"

definition TRIALS_PER_SPAN :: int where
  "TRIALS_PER_SPAN = 2"

definition NUM_BLOCKS :: int where
  "NUM_BLOCKS = 9"

subsection \<open>Data\<close>

text \<open>
  The exceptions the modelled code can raise. \<^verbatim>\<open>ZeroDivisionError\<close> comes from
  \<^verbatim>\<open>/\<close>, \<^verbatim>\<open>ValueError\<close> from \<^verbatim>\<open>max\<close> of an empty collection.
\<close>

datatype py_error = ZeroDivisionError | ValueError

text \<open>
  The dictionary appended to \<^verbatim>\<open>self.results\<close> by \<^verbatim>\<open>submit_trial\<close>: always the
  same six keys, so a record.
\<close>

record trial_record =
  span_length :: int
  trial_number :: int
  sequence :: "int list"
  response :: "int list"
  correct :: bool
  timestamp :: string

text \<open>
  The pydantic model \<^verbatim>\<open>CandidateInfo\<close> of corsi-backend/main.py, whose \<^verbatim>\<open>dict()\<close> is
  the \<^verbatim>\<open>candidate_info\<close> of the engine. The field \<^verbatim>\<open>session\<close> is declared
  \<^verbatim>\<open>int\<close>.
\<close>

record candidate_info =
  examiner_name :: string
  candidate_name :: string
  candidate_id :: string
  age :: "string option"
  gender :: "string option"
  session :: int
  additional_notes :: "string option"

text \<open>
  The mutable attributes of a \<^verbatim>\<open>CorsiEngine\<close>. The database handle \<^verbatim>\<open>self.db\<close> is
  not a field: what \<^verbatim>\<open>save_session\<close> writes through it is threaded explicitly.
\<close>

record engine =
  info :: candidate_info
  results :: "trial_record list"
  current_span :: int
  current_trial :: int
  finished :: bool

text \<open>The dictionary returned by \<^verbatim>\<open>_state\<close>.\<close>

record engine_state =
  state_span_length :: int
  state_trial_number :: int
  state_finished :: bool

text \<open>The dictionary returned by \<^verbatim>\<open>submit_trial\<close>.\<close>

record trial_outcome =
  outcome_correct :: bool
  outcome_finished :: bool
  next_state :: engine_state

subsection \<open>Construction and state snapshot\<close>

definition CorsiEngine_init :: "candidate_info \<Rightarrow> engine" where
  "CorsiEngine_init candidate =
     \<lparr>info = candidate, results = [], current_span = MIN_SPAN,
      current_trial = 1, finished = False\<rparr>"

definition state_of :: "engine \<Rightarrow> engine_state" where
  "state_of self =
     \<lparr>state_span_length = current_span self,
      state_trial_number = current_trial self,
      state_finished = finished self\<rparr>"

definition start_session :: "engine \<Rightarrow> engine_state" where
  "start_session self = state_of self"

subsection \<open>Recording a trial\<close>

text \<open>
  \<^verbatim>\<open>sum(r["correct"] for r in trials)\<close>: Python adds the booleans as the integers
  0 and 1.
\<close>

definition sum_correct :: "trial_record list \<Rightarrow> int" where
  "sum_correct trials = sum_list (map (\<lambda>r. of_bool (correct r)) trials)"

text \<open>
  \<^verbatim>\<open>submit_trial\<close> mutates the engine and returns a dictionary; the model returns
  the dictionary and the engine after the call. The clock reading
  \<^verbatim>\<open>datetime.now()\<close> is the argument \<open>now\<close>.
\<close>

definition submit_trial ::
  "engine \<Rightarrow> int list \<Rightarrow> int list \<Rightarrow> string \<Rightarrow> trial_outcome \<times> engine" where
  "submit_trial self sq rsp now =
     (let is_correct = (sq = rsp);
          self1 = self\<lparr>results := results self @
                    [\<lparr>span_length = current_span self,
                      trial_number = current_trial self,
                      sequence = sq,
                      response = rsp,
                      correct = is_correct,
                      timestamp = now\<rparr>]\<rparr>;
          span_trials = filter (\<lambda>r. span_length r = current_span self1) (results self1);
          self2 =
            (if int (length span_trials) \<ge> TRIALS_PER_SPAN then
               (let self' =
                  (if sum_correct span_trials = 0 then self1\<lparr>finished := True\<rparr>
                   else if current_span self1 < MAX_SPAN
                     then self1\<lparr>current_span := current_span self1 + 1\<rparr>
                     else self1\<lparr>finished := True\<rparr>)
                in self'\<lparr>current_trial := 1\<rparr>)
             else self1\<lparr>current_trial := current_trial self1 + 1\<rparr>)
      in (\<lparr>outcome_correct = is_correct,
           outcome_finished = finished self2,
           next_state = state_of self2\<rparr>, self2))"

text \<open>The records of \<open>rs\<close> taken at span \<open>s\<close>, in the order they were appended.\<close>

definition span_records :: "int \<Rightarrow> trial_record list \<Rightarrow> trial_record list" where
  "span_records s rs = filter (\<lambda>r. span_length r = s) rs"

subsection \<open>Double-precision floats\<close>

text \<open>
  A Python float is an IEEE 754 binary64 value. The finite ones are rationals, and the
  model keeps a float as the rational it denotes. \<open>double_exponent x\<close> is the exponent of
  the binade of \<open>x\<close>, kept within the exponents of the format (\<open>- 1022\<close> for the
  subnormal range, \<open>1023\<close> at the top); the two searches halve or double \<open>x\<close> until it
  lies in \<open>[1, 2)\<close>, for at most as many steps as the format has exponents.
\<close>

primrec binade_below :: "nat \<Rightarrow> rat \<Rightarrow> int" where
  "binade_below 0 x = 0"
| "binade_below (Suc n) x = (if 1 \<le> x then 0 else binade_below n (2 * x) - 1)"

primrec binade_above :: "nat \<Rightarrow> rat \<Rightarrow> int" where
  "binade_above 0 x = 0"
| "binade_above (Suc n) x = (if x < 2 then 0 else binade_above n (x / 2) + 1)"

definition double_exponent :: "rat \<Rightarrow> int" where
  "double_exponent x =
     (if \<bar>x\<bar> < 1 then binade_below 1022 \<bar>x\<bar> else binade_above 1023 \<bar>x\<bar>)"

text \<open>Rounding to the nearest integer, a tie going to the even one.\<close>

definition round_half_even :: "rat \<Rightarrow> int" where
  "round_half_even y =
     (let f = \<lfloor>y\<rfloor>; d = y - of_int f
      in if d < 1 / 2 then f
         else if 1 / 2 < d then f + 1
         else if even f then f else f + 1)"

text \<open>
  The double nearest to \<open>x\<close>, ties to even: \<open>x\<close> rounded to a multiple of the spacing of
  doubles in its binade, which is \<open>2\<close> to the power \<open>double_exponent x - 52\<close>. Results of
  magnitude \<open>2 ^ 1024\<close> and more, where Python overflows, are not modelled; the values
  rounded here are quotients between 0 and 1 and percentages up to 100.
\<close>

definition round_double :: "rat \<Rightarrow> rat" where
  "round_double x =
     (let ulp = power_int 2 (double_exponent x - 52)
      in of_int (round_half_even (x / ulp)) * ulp)"

text \<open>Python's \<^verbatim>\<open>*\<close> on two floats: the exact product, rounded.\<close>

definition py_float_mul :: "rat \<Rightarrow> rat \<Rightarrow> rat" where
  "py_float_mul x y = round_double (x * y)"

subsection \<open>The span score\<close>

text \<open>
  Python's \<^verbatim>\<open>/\<close> on integers: it raises \<^verbatim>\<open>ZeroDivisionError\<close> when the divisor is
  0 and otherwise returns the quotient as a float, the double nearest to the exact
  quotient. \<open>py_truediv\<close> gives the exact quotient, and \<^const>\<open>round_double\<close> takes it to
  the float. \<^verbatim>\<open>calculate_corsi_span\<close> only compares the float with \<^verbatim>\<open>0.5\<close>, and
  there the float and the exact quotient agree for every list shorter than \<open>2 ^ 53\<close>
  records (lemma \<open>accuracy_threshold\<close>), so its loop compares the exact quotient;
  \<^verbatim>\<open>save_session\<close> stores the value, so it rounds.
\<close>

definition py_truediv :: "int \<Rightarrow> int \<Rightarrow> py_error + rat" where
  "py_truediv a b = (if b = 0 then Inl ZeroDivisionError else Inr (of_int a / of_int b))"

text \<open>Python's \<^verbatim>\<open>max\<close> of a collection: \<^verbatim>\<open>ValueError\<close> when it is empty.\<close>

fun py_max :: "int list \<Rightarrow> py_error + int" where
  "py_max [] = Inl ValueError"
| "py_max (x # xs) = Inr (fold max xs x)"

text \<open>
  The loop \<^verbatim>\<open>for span in spans\<close> of \<^verbatim>\<open>calculate_corsi_span\<close>, the loop
  variable written \<open>sp\<close>. The dictionary
  \<^verbatim>\<open>span_scores\<close> is an association list, \<^verbatim>\<open>span_scores[span] = accuracy\<close> is
  \<^const>\<open>AList.update\<close>.
\<close>

fun span_scores_loop ::
  "trial_record list \<Rightarrow> int list \<Rightarrow> (int \<times> rat) list \<Rightarrow> py_error + (int \<times> rat) list" where
  "span_scores_loop rs [] span_scores = Inr span_scores"
| "span_scores_loop rs (sp # spans) span_scores =
     (let trials = filter (\<lambda>r. span_length r = sp) rs in
      case py_truediv (sum_correct trials) (int (length trials)) of
        Inl e \<Rightarrow> Inl e
      | Inr accuracy \<Rightarrow>
          span_scores_loop rs spans
            (if accuracy \<ge> 1 / 2 then AList.update sp accuracy span_scores
             else span_scores))"

text \<open>
  \<^verbatim>\<open>calculate_corsi_span\<close>. The set \<^verbatim>\<open>spans\<close> is iterated in an order Python does
  not specify; the model iterates the distinct spans in the order \<^const>\<open>remdups\<close>
  leaves them.
\<close>

definition calculate_corsi_span :: "engine \<Rightarrow> py_error + int" where
  "calculate_corsi_span self =
     (let spans = remdups (map span_length (results self)) in
      case span_scores_loop (results self) spans [] of
        Inl e \<Rightarrow> Inl e
      | Inr span_scores \<Rightarrow>
          if span_scores \<noteq> [] then py_max (map fst span_scores) else Inr 0)"

text \<open>
  The span score in the words of the specification: the accuracy of a span is the number
  of its correct records divided by the number of its records, a span present in the
  results qualifies when its accuracy is at least one half, and the score is the largest
  qualifying span, or 0 when there is none.
\<close>

definition span_accuracy :: "trial_record list \<Rightarrow> int \<Rightarrow> rat" where
  "span_accuracy rs s =
     of_nat (length (filter correct (span_records s rs))) /
     of_nat (length (span_records s rs))"

definition qualifying_spans :: "trial_record list \<Rightarrow> int set" where
  "qualifying_spans rs = {s \<in> span_length ` set rs. span_accuracy rs s \<ge> 1 / 2}"

definition spec_span_score :: "trial_record list \<Rightarrow> int" where
  "spec_span_score rs = (if qualifying_spans rs = {} then 0 else Max (qualifying_spans rs))"

subsection \<open>Saving the session\<close>

text \<open>
  The dictionary \<^verbatim>\<open>session_data\<close> built by \<^verbatim>\<open>save_session\<close>. The float
  \<^verbatim>\<open>accuracy\<close> is kept as the rational it denotes.
\<close>

record session_data =
  session_number :: int
  test_date :: string
  corsi_span :: int
  total_trials :: int
  correct_trials :: int
  accuracy :: rat
  data_files :: "string list"

text \<open>
  The two calls \<^verbatim>\<open>save_session\<close> makes on the database manager. The database itself
  is SQLite behind \<^verbatim>\<open>DatabaseManager\<close>; the model keeps the list of writes requested.
\<close>

datatype db_write =
  SaveCandidate candidate_info
| SaveTestSession string session_data

text \<open>
  \<^verbatim>\<open>save_session\<close>. The empty dictionary returned for empty results is \<open>None\<close>.
  An exception leaves the method before any write is requested. The accuracy is
  \<^verbatim>\<open>(correct_trials / total_trials) * 100\<close> in floats: the rounded quotient times
  \<^verbatim>\<open>100\<close>, rounded.
\<close>

definition save_session ::
  "engine \<Rightarrow> string \<Rightarrow> db_write list \<Rightarrow> py_error + (session_data option \<times> db_write list)" where
  "save_session self now db =
     (if results self = [] then Inr (None, db)
      else
        (let n_total = int (length (results self));
             n_correct = sum_correct (results self)
         in case py_truediv n_correct n_total of
              Inl e \<Rightarrow> Inl e
            | Inr q \<Rightarrow>
                (let acc = py_float_mul (round_double q) 100
                 in case calculate_corsi_span self of
                      Inl e \<Rightarrow> Inl e
                    | Inr score \<Rightarrow>
                        (let summary =
                           \<lparr>session_number = session (info self),
                            test_date = now,
                            corsi_span = score,
                            total_trials = n_total,
                            correct_trials = n_correct,
                            accuracy = acc,
                            data_files = []\<rparr>
                         in Inr (Some summary,
                              db @ [SaveCandidate (info self),
                                    SaveTestSession (candidate_id (info self)) summary])))))"

subsection \<open>The operations of an engine\<close>

text \<open>
  The public methods of \<^verbatim>\<open>CorsiEngine\<close>, with their arguments and the clock reading
  where one is taken. Only \<^verbatim>\<open>submit_trial\<close> assigns to an attribute of the engine;
  \<^verbatim>\<open>start_session\<close>, \<^verbatim>\<open>_state\<close>, \<^verbatim>\<open>new_sequence\<close>, \<^verbatim>\<open>calculate_corsi_span\<close>
  and \<^verbatim>\<open>save_session\<close> read them.
\<close>

datatype operation =
  StartSession
| State
| NewSequence
| SubmitTrial "int list" "int list" string
| CalculateCorsiSpan
| SaveSession string

fun apply_operation :: "engine \<Rightarrow> operation \<Rightarrow> engine" where
  "apply_operation self (SubmitTrial sq rsp now) = snd (submit_trial self sq rsp now)"
| "apply_operation self StartSession = self"
| "apply_operation self State = self"
| "apply_operation self NewSequence = self"
| "apply_operation self CalculateCorsiSpan = self"
| "apply_operation self (SaveSession now) = self"

definition run :: "engine \<Rightarrow> operation list \<Rightarrow> engine" where
  "run self ops = foldl apply_operation self ops"

section \<open>The session endpoint (corsi-backend/main.py)\<close>

text \<open>The dictionary returned by the endpoint \<^verbatim>\<open>/api/start-session\<close>.\<close>

record start_response =
  response_session_id :: string
  response_state :: engine_state

text \<open>
  The endpoint function \<^verbatim>\<open>start_session\<close> of main.py, named after its route since
  the engine has a method of the same name. The global dictionary \<^verbatim>\<open>SESSIONS\<close> is
  passed in and returned; \<open>session_id\<close> is the value of \<^verbatim>\<open>str(uuid4())\<close>. The
  argument has been parsed by pydantic into a \<^verbatim>\<open>CandidateInfo\<close>.
\<close>

definition api_start_session ::
  "(string \<rightharpoonup> engine) \<Rightarrow> string \<Rightarrow> candidate_info
     \<Rightarrow> start_response \<times> (string \<rightharpoonup> engine)" where
  "api_start_session SESSIONS session_id candidate =
     (let e = CorsiEngine_init candidate;
          SESSIONS' = SESSIONS(session_id \<mapsto> e);
          state = start_session e
      in (\<lparr>response_session_id = session_id, response_state = state\<rparr>, SESSIONS'))"

section \<open>Validation of the desktop task (utils/validation.py)\<close>

text \<open>
  \<^verbatim>\<open>validate_candidate_info\<close>. The dictionary \<^verbatim>\<open>info\<close> holds the strings of the
  dialog. Python's built-in \<^verbatim>\<open>int\<close> on a string is the parameter \<open>py_int\<close>, \<open>None\<close>
  where it raises \<^verbatim>\<open>ValueError\<close>. A missing key raises \<^verbatim>\<open>KeyError\<close>, which the
  function does not catch.
\<close>

datatype validation_error = KeyError string

definition validate_candidate_info ::
  "(string \<Rightarrow> int option) \<Rightarrow> (string \<rightharpoonup> string) \<Rightarrow> validation_error + bool" where
  "validate_candidate_info py_int info_dict =
     (case info_dict ''candidate_name'' of
        None \<Rightarrow> Inl (KeyError ''candidate_name'')
      | Some name \<Rightarrow>
          if name = [] then Inr False
          else
            (case info_dict ''candidate_id'' of
               None \<Rightarrow> Inl (KeyError ''candidate_id'')
             | Some cid \<Rightarrow>
                 if cid = [] then Inr False
                 else
                   (case info_dict ''session'' of
                      None \<Rightarrow> Inl (KeyError ''session'')
                    | Some s \<Rightarrow>
                        (case py_int s of
                           None \<Rightarrow> Inr False
                         | Some n \<Rightarrow> if n < 1 then Inr False else Inr True))))"

section \<open>Example states\<close>

definition example_candidate :: candidate_info where
  "example_candidate =
     \<lparr>examiner_name = ''E'', candidate_name = ''N'', candidate_id = ''c1'',
      age = None, gender = None, session = 1, additional_notes = None\<rparr>"

text \<open>The engine after one wrong answer at span 2.\<close>

definition engine_one_miss :: engine where
  "engine_one_miss =
     \<lparr>info = example_candidate,
      results =
        [\<lparr>span_length = 2, trial_number = 1, sequence = [0, 1], response = [1, 0],
          correct = False, timestamp = ''2024-01-01 10:00:00''\<rparr>],
      current_span = 2, current_trial = 2, finished = False\<rparr>"

text \<open>The engine after two wrong answers at span 2: discontinued.\<close>

definition engine_two_misses :: engine where
  "engine_two_misses =
     \<lparr>info = example_candidate,
      results =
        [\<lparr>span_length = 2, trial_number = 1, sequence = [0, 1], response = [1, 0],
          correct = False, timestamp = ''2024-01-01 10:00:00''\<rparr>,
         \<lparr>span_length = 2, trial_number = 2, sequence = [3, 4], response = [4, 3],
          correct = False, timestamp = ''2024-01-01 10:00:09''\<rparr>],
      current_span = 2, current_trial = 1, finished = True\<rparr>"

text \<open>Thirteen trials: one right and one wrong answer at each span from 2 to 7, then a wrong
  answer at span 8.\<close>

definition trials_to_ceiling :: "operation list" where
  "trials_to_ceiling =
     [SubmitTrial [0, 1] [0, 1] ''2024-01-01 10:00:00'',
      SubmitTrial [2, 3] [3, 2] ''2024-01-01 10:00:10'',
      SubmitTrial [0, 1, 2] [0, 1, 2] ''2024-01-01 10:00:20'',
      SubmitTrial [3, 4, 5] [3, 5, 4] ''2024-01-01 10:00:30'',
      SubmitTrial [0, 1, 2, 3] [0, 1, 2, 3] ''2024-01-01 10:00:40'',
      SubmitTrial [4, 5, 6, 7] [4, 5, 7, 6] ''2024-01-01 10:00:50'',
      SubmitTrial [0, 1, 2, 3, 4] [0, 1, 2, 3, 4] ''2024-01-01 10:01:00'',
      SubmitTrial [4, 5, 6, 7, 8] [4, 5, 6, 8, 7] ''2024-01-01 10:01:10'',
      SubmitTrial [0, 1, 2, 3, 4, 5] [0, 1, 2, 3, 4, 5] ''2024-01-01 10:01:20'',
      SubmitTrial [3, 4, 5, 6, 7, 8] [3, 4, 5, 6, 8, 7] ''2024-01-01 10:01:30'',
      SubmitTrial [0, 1, 2, 3, 4, 5, 6] [0, 1, 2, 3, 4, 5, 6] ''2024-01-01 10:01:40'',
      SubmitTrial [2, 3, 4, 5, 6, 7, 8] [2, 3, 4, 5, 6, 8, 7] ''2024-01-01 10:01:50'',
      SubmitTrial [0, 1, 2, 3, 4, 5, 6, 7] [0, 1, 2, 3, 4, 5, 7, 6] ''2024-01-01 10:02:00'']"

text \<open>The engine after those trials: at the largest span, one wrong answer recorded there.\<close>

definition engine_at_ceiling :: engine where
  "engine_at_ceiling =
     \<lparr>info = example_candidate,
      results =
        [\<lparr>span_length = 2, trial_number = 1, sequence = [0, 1],
          response = [0, 1], correct = True,
          timestamp = ''2024-01-01 10:00:00''\<rparr>,
         \<lparr>span_length = 2, trial_number = 2, sequence = [2, 3],
          response = [3, 2], correct = False,
          timestamp = ''2024-01-01 10:00:10''\<rparr>,
         \<lparr>span_length = 3, trial_number = 1, sequence = [0, 1, 2],
          response = [0, 1, 2], correct = True,
          timestamp = ''2024-01-01 10:00:20''\<rparr>,
         \<lparr>span_length = 3, trial_number = 2, sequence = [3, 4, 5],
          response = [3, 5, 4], correct = False,
          timestamp = ''2024-01-01 10:00:30''\<rparr>,
         \<lparr>span_length = 4, trial_number = 1, sequence = [0, 1, 2, 3],
          response = [0, 1, 2, 3], correct = True,
          timestamp = ''2024-01-01 10:00:40''\<rparr>,
         \<lparr>span_length = 4, trial_number = 2, sequence = [4, 5, 6, 7],
          response = [4, 5, 7, 6], correct = False,
          timestamp = ''2024-01-01 10:00:50''\<rparr>,
         \<lparr>span_length = 5, trial_number = 1, sequence = [0, 1, 2, 3, 4],
          response = [0, 1, 2, 3, 4], correct = True,
          timestamp = ''2024-01-01 10:01:00''\<rparr>,
         \<lparr>span_length = 5, trial_number = 2, sequence = [4, 5, 6, 7, 8],
          response = [4, 5, 6, 8, 7], correct = False,
          timestamp = ''2024-01-01 10:01:10''\<rparr>,
         \<lparr>span_length = 6, trial_number = 1, sequence = [0, 1, 2, 3, 4, 5],
          response = [0, 1, 2, 3, 4, 5], correct = True,
          timestamp = ''2024-01-01 10:01:20''\<rparr>,
         \<lparr>span_length = 6, trial_number = 2, sequence = [3, 4, 5, 6, 7, 8],
          response = [3, 4, 5, 6, 8, 7], correct = False,
          timestamp = ''2024-01-01 10:01:30''\<rparr>,
         \<lparr>span_length = 7, trial_number = 1, sequence = [0, 1, 2, 3, 4, 5, 6],
          response = [0, 1, 2, 3, 4, 5, 6], correct = True,
          timestamp = ''2024-01-01 10:01:40''\<rparr>,
         \<lparr>span_length = 7, trial_number = 2, sequence = [2, 3, 4, 5, 6, 7, 8],
          response = [2, 3, 4, 5, 6, 8, 7], correct = False,
          timestamp = ''2024-01-01 10:01:50''\<rparr>,
         \<lparr>span_length = 8, trial_number = 1, sequence = [0, 1, 2, 3, 4, 5, 6, 7],
          response = [0, 1, 2, 3, 4, 5, 7, 6], correct = False,
          timestamp = ''2024-01-01 10:02:00''\<rparr>],
      current_span = 8, current_trial = 2, finished = False\<rparr>"

text \<open>Eight trials: spans 2 and 3 passed, both answers right at span 4, both wrong at
  span 5.\<close>

definition trials_four_five :: "operation list" where
  "trials_four_five =
     [SubmitTrial [0, 1] [0, 1] ''2024-01-01 10:00:00'',
      SubmitTrial [2, 3] [2, 3] ''2024-01-01 10:00:10'',
      SubmitTrial [0, 1, 2] [0, 1, 2] ''2024-01-01 10:00:20'',
      SubmitTrial [3, 4, 5] [3, 5, 4] ''2024-01-01 10:00:30'',
      SubmitTrial [0, 1, 2, 3] [0, 1, 2, 3] ''2024-01-01 10:00:40'',
      SubmitTrial [4, 5, 6, 7] [4, 5, 6, 7] ''2024-01-01 10:00:50'',
      SubmitTrial [0, 1, 2, 3, 4] [0, 1, 2, 4, 3] ''2024-01-01 10:01:00'',
      SubmitTrial [4, 5, 6, 7, 8] [4, 5, 6, 8, 7] ''2024-01-01 10:01:10'']"

text \<open>The engine after those trials: discontinued at span 5.\<close>

definition engine_four_five :: engine where
  "engine_four_five =
     \<lparr>info = example_candidate,
      results =
        [\<lparr>span_length = 2, trial_number = 1, sequence = [0, 1],
          response = [0, 1], correct = True,
          timestamp = ''2024-01-01 10:00:00''\<rparr>,
         \<lparr>span_length = 2, trial_number = 2, sequence = [2, 3],
          response = [2, 3], correct = True,
          timestamp = ''2024-01-01 10:00:10''\<rparr>,
         \<lparr>span_length = 3, trial_number = 1, sequence = [0, 1, 2],
          response = [0, 1, 2], correct = True,
          timestamp = ''2024-01-01 10:00:20''\<rparr>,
         \<lparr>span_length = 3, trial_number = 2, sequence = [3, 4, 5],
          response = [3, 5, 4], correct = False,
          timestamp = ''2024-01-01 10:00:30''\<rparr>,
         \<lparr>span_length = 4, trial_number = 1, sequence = [0, 1, 2, 3],
          response = [0, 1, 2, 3], correct = True,
          timestamp = ''2024-01-01 10:00:40''\<rparr>,
         \<lparr>span_length = 4, trial_number = 2, sequence = [4, 5, 6, 7],
          response = [4, 5, 6, 7], correct = True,
          timestamp = ''2024-01-01 10:00:50''\<rparr>,
         \<lparr>span_length = 5, trial_number = 1, sequence = [0, 1, 2, 3, 4],
          response = [0, 1, 2, 4, 3], correct = False,
          timestamp = ''2024-01-01 10:01:00''\<rparr>,
         \<lparr>span_length = 5, trial_number = 2, sequence = [4, 5, 6, 7, 8],
          response = [4, 5, 6, 8, 7], correct = False,
          timestamp = ''2024-01-01 10:01:10''\<rparr>],
      current_span = 5, current_trial = 1, finished = True\<rparr>"

text \<open>
  Six trials: one right and one wrong answer at spans 2 and 3, both answers wrong at
  span 4.
\<close>

definition trials_two_of_six :: "operation list" where
  "trials_two_of_six =
     [SubmitTrial [0, 1] [0, 1] ''2024-01-01 10:00:00'',
      SubmitTrial [2, 3] [3, 2] ''2024-01-01 10:00:10'',
      SubmitTrial [0, 1, 2] [0, 1, 2] ''2024-01-01 10:00:20'',
      SubmitTrial [3, 4, 5] [3, 5, 4] ''2024-01-01 10:00:30'',
      SubmitTrial [0, 1, 2, 3] [0, 1, 3, 2] ''2024-01-01 10:00:40'',
      SubmitTrial [4, 5, 6, 7] [4, 5, 7, 6] ''2024-01-01 10:00:50'']"

text \<open>The engine after those trials: discontinued at span 4, two of six correct.\<close>

definition engine_two_of_six :: engine where
  "engine_two_of_six =
     \<lparr>info = example_candidate,
      results =
        [\<lparr>span_length = 2, trial_number = 1, sequence = [0, 1],
          response = [0, 1], correct = True,
          timestamp = ''2024-01-01 10:00:00''\<rparr>,
         \<lparr>span_length = 2, trial_number = 2, sequence = [2, 3],
          response = [3, 2], correct = False,
          timestamp = ''2024-01-01 10:00:10''\<rparr>,
         \<lparr>span_length = 3, trial_number = 1, sequence = [0, 1, 2],
          response = [0, 1, 2], correct = True,
          timestamp = ''2024-01-01 10:00:20''\<rparr>,
         \<lparr>span_length = 3, trial_number = 2, sequence = [3, 4, 5],
          response = [3, 5, 4], correct = False,
          timestamp = ''2024-01-01 10:00:30''\<rparr>,
         \<lparr>span_length = 4, trial_number = 1, sequence = [0, 1, 2, 3],
          response = [0, 1, 3, 2], correct = False,
          timestamp = ''2024-01-01 10:00:40''\<rparr>,
         \<lparr>span_length = 4, trial_number = 2, sequence = [4, 5, 6, 7],
          response = [4, 5, 7, 6], correct = False,
          timestamp = ''2024-01-01 10:00:50''\<rparr>],
      current_span = 4, current_trial = 1, finished = True\<rparr>"

section \<open>The invariant of the engine\<close>

text \<open>
  What holds of every engine reached from a fresh one: the span is within its bounds, no
  record has a span above the current one, and the trial counter is one more than the
  number of records at the current span, or back at 1 once that span has its
  \<^verbatim>\<open>TRIALS_PER_SPAN\<close> records, in which case the engine has finished.
\<close>

definition engine_inv :: "engine \<Rightarrow> bool" where
  "engine_inv self \<longleftrightarrow>
     MIN_SPAN \<le> current_span self \<and> current_span self \<le> MAX_SPAN
     \<and> (\<forall>r \<in> set (results self). span_length r \<le> current_span self)
     \<and> (let n = length (span_records (current_span self) (results self)) in
          (n = 0 \<and> current_trial self = 1)
          \<or> (n = 1 \<and> current_trial self = 2)
          \<or> (2 \<le> n \<and> current_trial self = 1 \<and> finished self))"

text \<open>A start-session request whose session number is 0.\<close>

definition candidate_session_zero :: candidate_info where
  "candidate_session_zero =
     \<lparr>examiner_name = ''E'', candidate_name = ''N'', candidate_id = ''c1'',
      age = None, gender = None, session = 0, additional_notes = None\<rparr>"

section \<open>Helper lemmas\<close>

lemma sum_correct_zero_iff:
  "sum_correct trials = 0 \<longleftrightarrow> (\<forall>r \<in> set trials. \<not> correct r)"
proof (induction trials)
  case Nil
  show ?case by (simp add: sum_correct_def)
next
  case (Cons r trials)
  have nonneg: "0 \<le> sum_correct trials"
    unfolding sum_correct_def by (rule sum_list_nonneg) auto
  have step: "sum_correct (r # trials) = of_bool (correct r) + sum_correct trials"
    by (simp add: sum_correct_def)
  show ?case
  proof (cases "correct r")
    case True
    with nonneg step show ?thesis by simp
  next
    case False
    with step Cons.IH show ?thesis by simp
  qed
qed

lemma submit_trial_results:
  "results (snd (submit_trial self sq rsp now)) =
     results self @
       [\<lparr>span_length = current_span self, trial_number = current_trial self,
         sequence = sq, response = rsp, correct = (sq = rsp), timestamp = now\<rparr>]"
  by (simp add: submit_trial_def Let_def)

lemmas engine_consts = MIN_SPAN_def MAX_SPAN_def TRIALS_PER_SPAN_def

text \<open>The example states are reached from a fresh engine.\<close>

lemma one_miss_reached:
  "snd (submit_trial (CorsiEngine_init example_candidate) [0, 1] [1, 0]
     ''2024-01-01 10:00:00'') = engine_one_miss"
  by (simp add: engine_one_miss_def submit_trial_def Let_def CorsiEngine_init_def
      sum_correct_def engine_consts)

lemma two_misses_reached:
  "snd (submit_trial engine_one_miss [3, 4] [4, 3] ''2024-01-01 10:00:09'') =
     engine_two_misses"
  by (simp add: engine_one_miss_def engine_two_misses_def submit_trial_def Let_def
      sum_correct_def engine_consts)

lemma submit_trial_outcome_correct:
  "outcome_correct (fst (submit_trial self sq rsp now)) = (sq = rsp)"
  by (simp add: submit_trial_def Let_def)

lemma submit_trial_last_correct:
  "correct (last (results (snd (submit_trial self sq rsp now)))) = (sq = rsp)"
  by (simp add: submit_trial_results)

lemma submit_trial_finished_mono:
  "finished self \<Longrightarrow> finished (snd (submit_trial self sq rsp now))"
  by (simp add: submit_trial_def Let_def)

lemma sum_correct_eq_length:
  "sum_correct trials = int (length (filter correct trials))"
  by (induction trials) (simp_all add: sum_correct_def)

lemma span_records_nonempty:
  "s \<in> span_length ` set rs \<Longrightarrow> span_records s rs \<noteq> []"
  by (auto simp add: span_records_def filter_empty_conv)

lemma py_truediv_span:
  assumes "s \<in> span_length ` set rs"
  shows "py_truediv (sum_correct (filter (\<lambda>r. span_length r = s) rs))
           (int (length (filter (\<lambda>r. span_length r = s) rs))) = Inr (span_accuracy rs s)"
proof -
  from assms have "filter (\<lambda>r. span_length r = s) rs \<noteq> []"
    using span_records_nonempty [of s rs] by (simp add: span_records_def)
  then have "int (length (filter (\<lambda>r. span_length r = s) rs)) \<noteq> 0"
    by simp
  then show ?thesis
    by (simp add: py_truediv_def span_accuracy_def span_records_def sum_correct_eq_length)
qed

lemma span_scores_loop_keys:
  assumes "set spans \<subseteq> span_length ` set rs"
  shows "\<exists>scores. span_scores_loop rs spans acc = Inr scores
           \<and> set (map fst scores) =
               set (map fst acc) \<union> {s \<in> set spans. span_accuracy rs s \<ge> 1 / 2}"
  using assms
proof (induction spans arbitrary: acc)
  case Nil
  show ?case by simp
next
  case (Cons s spans)
  from Cons.prems have s_in: "s \<in> span_length ` set rs"
    and rest: "set spans \<subseteq> span_length ` set rs"
    by simp_all
  let ?acc' = "if span_accuracy rs s \<ge> 1 / 2
               then AList.update s (span_accuracy rs s) acc else acc"
  from Cons.IH [OF rest, of ?acc'] obtain scores where
    run: "span_scores_loop rs spans ?acc' = Inr scores"
    and keys: "set (map fst scores) =
                 set (map fst ?acc') \<union> {t \<in> set spans. span_accuracy rs t \<ge> 1 / 2}"
    by blast
  have step: "span_scores_loop rs (s # spans) acc = span_scores_loop rs spans ?acc'"
    by (simp add: Let_def py_truediv_span [OF s_in])
  have acc_keys: "set (map fst ?acc') =
        set (map fst acc) \<union> (if span_accuracy rs s \<ge> 1 / 2 then {s} else {})"
    by (simp add: dom_update)
  from run keys step acc_keys show ?case
    by auto
qed

text \<open>
  The keys collected by the loop do not depend on the order in which the spans are
  iterated: any list holding the spans of the results gives the qualifying spans.
\<close>

lemma span_scores_loop_any_order:
  assumes "set spans = span_length ` set rs"
  shows "\<exists>scores. span_scores_loop rs spans [] = Inr scores
           \<and> set (map fst scores) = qualifying_spans rs"
proof -
  from assms have "set spans \<subseteq> span_length ` set rs"
    by simp
  from span_scores_loop_keys [OF this, of "[]"] assms show ?thesis
    by (auto simp add: qualifying_spans_def)
qed

lemma calculate_corsi_span_keys:
  "\<exists>scores. span_scores_loop (results self) (remdups (map span_length (results self))) []
             = Inr scores
          \<and> set (map fst scores) = qualifying_spans (results self)"
proof -
  have "set (remdups (map span_length (results self))) \<subseteq> span_length ` set (results self)"
    by simp
  from span_scores_loop_keys [OF this, of "[]"] show ?thesis
    by (auto simp add: qualifying_spans_def)
qed

lemma py_max_Max:
  assumes "xs \<noteq> []"
  shows "py_max xs = Inr (Max (set xs))"
proof (cases xs)
  case Nil
  with assms show ?thesis by simp
next
  case (Cons a list)
  show ?thesis
    unfolding Cons using Max.set_eq_fold [of a list] by simp
qed

lemma calculate_corsi_span_eq:
  "calculate_corsi_span self = Inr (spec_span_score (results self))"
proof -
  from calculate_corsi_span_keys [of self] obtain scores where
    run: "span_scores_loop (results self) (remdups (map span_length (results self))) []
            = Inr scores"
    and keys: "set (map fst scores) = qualifying_spans (results self)"
    by blast
  show ?thesis
  proof (cases "scores = []")
    case True
    with keys have "qualifying_spans (results self) = {}" by simp
    with run True show ?thesis
      by (simp add: calculate_corsi_span_def spec_span_score_def)
  next
    case False
    then have "map fst scores \<noteq> []" by simp
    from py_max_Max [OF this] keys
    have "py_max (map fst scores) = Inr (Max (qualifying_spans (results self)))"
      by simp
    moreover from False keys have "qualifying_spans (results self) \<noteq> {}"
      by (metis map_is_Nil_conv set_empty)
    ultimately show ?thesis
      using run False by (simp add: calculate_corsi_span_def spec_span_score_def)
  qed
qed

lemma qualifying_spans_Nil:
  "qualifying_spans [] = {}"
  by (simp add: qualifying_spans_def)

lemma calculate_corsi_span_four_five:
  "calculate_corsi_span engine_four_five = Inr 4"
  by (simp add: calculate_corsi_span_def engine_four_five_def Let_def py_truediv_def
      sum_correct_def)

lemma calculate_corsi_span_two_misses:
  "calculate_corsi_span engine_two_misses = Inr 0"
  by (simp add: calculate_corsi_span_def engine_two_misses_def Let_def py_truediv_def
      sum_correct_def)

text \<open>Evaluation of the rounding on numerals.\<close>

lemma binade_below_numeral:
  "binade_below (numeral k) x =
     (if 1 \<le> x then 0 else binade_below (pred_numeral k) (2 * x) - 1)"
  by (simp add: numeral_eq_Suc)

lemma binade_above_numeral:
  "binade_above (numeral k) x =
     (if x < 2 then 0 else binade_above (pred_numeral k) (x / 2) + 1)"
  by (simp add: numeral_eq_Suc)

lemma floor_numeral_div:
  "\<lfloor>numeral a / numeral b :: rat\<rfloor> = numeral a div numeral b"
  using floor_divide_of_int_eq [of "numeral a" "numeral b", where ?'a = rat] by simp

lemmas double_eval = binade_below_numeral binade_above_numeral double_exponent_def
  round_half_even_def round_double_def py_float_mul_def Let_def floor_numeral_div

text \<open>The rounding error of a double.\<close>

lemma binade_below_le_0:
  "binade_below n x \<le> 0"
proof (induction n arbitrary: x)
  case 0
  show ?case by simp
next
  case (Suc n)
  from Suc [of "2 * x"] show ?case by simp
qed

lemma binade_above_le:
  "x < 2 ^ Suc k \<Longrightarrow> binade_above n x \<le> int k"
proof (induction n arbitrary: x k)
  case 0
  show ?case by simp
next
  case (Suc n)
  show ?case
  proof (cases "x < 2")
    case True
    then show ?thesis by simp
  next
    case False
    with Suc.prems obtain k' where k: "k = Suc k'"
      by (cases k) simp_all
    from Suc.prems k have "x / 2 < 2 ^ Suc k'"
      by simp
    from Suc.IH [OF this] False k show ?thesis
      by simp
  qed
qed

lemma double_exponent_le:
  assumes "\<bar>x\<bar> < 2 ^ Suc k"
  shows "double_exponent x \<le> int k"
proof (cases "\<bar>x\<bar> < 1")
  case True
  have "binade_below 1022 \<bar>x\<bar> \<le> 0"
    by (rule binade_below_le_0)
  with True show ?thesis
    by (simp add: double_exponent_def)
next
  case False
  from binade_above_le [OF assms, of 1023] False show ?thesis
    by (simp add: double_exponent_def)
qed

lemma round_half_even_error:
  "\<bar>of_int (round_half_even y) - y\<bar> \<le> 1 / 2"
proof -
  have lo: "of_int \<lfloor>y\<rfloor> \<le> y" and hi: "y < of_int \<lfloor>y\<rfloor> + 1"
    by linarith+
  from lo hi show ?thesis
    by (auto simp add: round_half_even_def Let_def abs_le_iff)
qed

lemma round_double_error:
  "\<bar>round_double x - x\<bar> \<le> power_int 2 (double_exponent x - 52) / 2"
proof -
  let ?ulp = "power_int 2 (double_exponent x - 52) :: rat"
  have pos: "0 < ?ulp"
    by simp
  have "round_double x - x = (of_int (round_half_even (x / ?ulp)) - x / ?ulp) * ?ulp"
    using pos by (simp add: round_double_def Let_def field_simps)
  then have "\<bar>round_double x - x\<bar> = \<bar>of_int (round_half_even (x / ?ulp)) - x / ?ulp\<bar> * ?ulp"
    using pos by (simp add: abs_mult)
  also have "\<dots> \<le> 1 / 2 * ?ulp"
    using round_half_even_error [of "x / ?ulp"] pos by (simp add: mult_right_mono)
  finally show ?thesis by simp
qed

lemma round_double_error_below:
  assumes "\<bar>x\<bar> < 2 ^ Suc k"
  shows "\<bar>round_double x - x\<bar> \<le> power_int 2 (int k - 53)"
proof -
  have "power_int (2 :: rat) (double_exponent x - 52) / 2 = power_int 2 (double_exponent x - 53)"
    by (simp add: power_int_diff)
  also have "\<dots> \<le> power_int 2 (int k - 53)"
    using double_exponent_le [OF assms] by (intro power_int_increasing) simp_all
  finally show ?thesis
    using round_double_error [of x] by simp
qed

lemma accuracy_error:
  assumes "0 \<le> c" and "c \<le> t" and "0 < t"
  shows "\<bar>py_float_mul (round_double (of_int c / of_int t)) 100
           - 100 * of_int c / of_int t\<bar> \<le> 1 / 2 ^ 45"
proof -
  let ?q = "of_int c / of_int t :: rat"
  let ?y = "round_double ?q * 100"
  from assms have q0: "0 \<le> ?q" and q1: "?q \<le> 1"
    by simp_all
  then have "\<bar>?q\<bar> < 2 ^ Suc 0"
    by simp
  from round_double_error_below [OF this]
  have e1: "\<bar>round_double ?q - ?q\<bar> \<le> 1 / 2 ^ 53"
    by (simp add: power_int_minus field_simps)
  from e1 q0 q1 have "\<bar>round_double ?q\<bar> \<le> 1 + 1 / 2 ^ 53"
    by linarith
  then have "\<bar>?y\<bar> \<le> (1 + 1 / 2 ^ 53) * 100"
    by (simp add: abs_mult)
  then have "\<bar>?y\<bar> < 2 ^ Suc 6"
    by simp
  from round_double_error_below [OF this]
  have e2: "\<bar>round_double ?y - ?y\<bar> \<le> 1 / 2 ^ 47"
    by (simp add: power_int_minus field_simps)
  have "\<bar>round_double ?y - 100 * ?q\<bar> \<le> \<bar>round_double ?y - ?y\<bar> + \<bar>?y - 100 * ?q\<bar>"
    by simp
  also have "\<bar>?y - 100 * ?q\<bar> = \<bar>100 * (round_double ?q - ?q)\<bar>"
    by (simp add: algebra_simps)
  also have "\<dots> = 100 * \<bar>round_double ?q - ?q\<bar>"
    by (subst abs_mult) simp
  finally have "\<bar>round_double ?y - 100 * ?q\<bar> \<le> 1 / 2 ^ 47 + 100 * (1 / 2 ^ 53)"
    using e1 e2 by simp
  then show ?thesis
    by (simp add: py_float_mul_def)
qed


lemma round_half_even_ge:
  assumes "of_int m \<le> y"
  shows "m \<le> round_half_even y"
proof -
  from assms have "m \<le> \<lfloor>y\<rfloor>"
    by (simp add: le_floor_iff)
  moreover have "\<lfloor>y\<rfloor> \<le> round_half_even y"
    by (simp add: round_half_even_def Let_def)
  ultimately show ?thesis by simp
qed

lemma double_exponent_half:
  assumes "1 / 2 \<le> x" and "x < 1"
  shows "double_exponent x = - 1"
proof -
  from assms have "\<bar>x\<bar> = x"
    by simp
  with assms show ?thesis
    by (simp add: double_exponent_def binade_below_numeral)
qed

lemma double_exponent_below_half:
  assumes "0 \<le> x" and "x < 1 / 2"
  shows "double_exponent x \<le> - 2"
proof -
  from assms have a: "\<bar>x\<bar> = x"
    by simp
  have "binade_below 1020 (2 * (2 * x)) \<le> 0"
    by (rule binade_below_le_0)
  with assms a show ?thesis
    by (simp add: double_exponent_def binade_below_numeral)
qed

lemma round_double_ge_half:
  assumes "1 / 2 \<le> x" and "x \<le> 1"
  shows "1 / 2 \<le> round_double x"
proof (cases "x < 1")
  case True
  with assms have e: "double_exponent x = - 1"
    by (simp add: double_exponent_half)
  have "of_int (2 ^ 52) \<le> x / (1 / 2 ^ 53)"
    using assms by simp
  then have "2 ^ 52 \<le> round_half_even (x / (1 / 2 ^ 53))"
    by (rule round_half_even_ge)
  then have "(of_int (2 ^ 52) :: rat) \<le> of_int (round_half_even (x / (1 / 2 ^ 53)))"
    by (simp only: of_int_le_iff)
  then have "of_int (2 ^ 52) * (1 / 2 ^ 53) \<le> of_int (round_half_even (x / (1 / 2 ^ 53))) * (1 / 2 ^ 53 :: rat)"
    by (rule mult_right_mono) simp
  with e show ?thesis
    by (simp add: round_double_def Let_def power_int_minus)
next
  case False
  with assms have "x = 1"
    by simp
  then show ?thesis
    by (simp add: double_eval)
qed

lemma round_double_less_half:
  assumes "0 \<le> x" and "x + 1 / 2 ^ 55 < 1 / 2"
  shows "round_double x < 1 / 2"
proof -
  from assms have "x < 1 / 2"
    by simp
  with assms have e: "double_exponent x \<le> - 2"
    by (simp add: double_exponent_below_half)
  have "power_int (2 :: rat) (double_exponent x - 52) / 2 = power_int 2 (double_exponent x - 53)"
    by (simp add: power_int_diff)
  also have "\<dots> \<le> power_int 2 (- 55)"
    using e by (intro power_int_increasing) simp_all
  finally have "\<bar>round_double x - x\<bar> \<le> 1 / 2 ^ 55"
    using round_double_error [of x] by (simp add: power_int_minus field_simps)
  with assms(2) show ?thesis
    by linarith
qed

lemma accuracy_threshold:
  assumes "0 \<le> c" and "c \<le> n" and "0 < n" and "n < 2 ^ 53"
  shows "(1 / 2 \<le> round_double (of_int c / of_int n)) = (1 / 2 \<le> (of_int c / of_int n :: rat))"
proof (cases "2 * c < n")
  case False
  with assms have ge: "1 / 2 \<le> (of_int c / of_int n :: rat)"
    by (simp add: field_simps)
  from assms have "(of_int c / of_int n :: rat) \<le> 1"
    by simp
  from round_double_ge_half [OF ge this] ge show ?thesis
    by simp
next
  case True
  then have "2 * c + 1 \<le> n"
    by simp
  then have "(of_int (2 * c + 1) :: rat) \<le> of_int n"
    by (simp only: of_int_le_iff)
  then have le: "2 * of_int c + 1 \<le> (of_int n :: rat)"
    by simp
  from assms have npos: "0 < (of_int n :: rat)"
    by simp
  from assms(4) have "(of_int n :: rat) < of_int (2 ^ 53)"
    by (simp only: of_int_less_iff)
  then have nlt: "(of_int n :: rat) < 2 ^ 53"
    by simp
  have "(of_int c / of_int n :: rat) + 1 / (2 * of_int n) \<le> 1 / 2"
    using le npos by (simp add: field_simps)
  moreover have "1 / 2 ^ 55 < 1 / (2 * of_int n :: rat)"
    using npos nlt by (simp add: field_simps)
  ultimately have gap: "(of_int c / of_int n :: rat) + 1 / 2 ^ 55 < 1 / 2"
    by linarith
  from assms have "0 \<le> (of_int c / of_int n :: rat)"
    by simp
  from round_double_less_half [OF this gap] gap show ?thesis
    by simp
qed

lemma save_session_empty:
  "results self = [] \<Longrightarrow> save_session self now db = Inr (None, db)"
  by (simp add: save_session_def)

lemma save_session_nonempty:
  assumes "results self \<noteq> []"
  shows "save_session self now db =
     Inr (Some \<lparr>session_number = session (info self),
                test_date = now,
                corsi_span = spec_span_score (results self),
                total_trials = int (length (results self)),
                correct_trials = sum_correct (results self),
                accuracy = py_float_mul (round_double (of_int (sum_correct (results self)) /
                           of_int (int (length (results self))))) 100,
                data_files = []\<rparr>,
          db @ [SaveCandidate (info self),
                SaveTestSession (candidate_id (info self))
                  \<lparr>session_number = session (info self),
                   test_date = now,
                   corsi_span = spec_span_score (results self),
                   total_trials = int (length (results self)),
                   correct_trials = sum_correct (results self),
                   accuracy = py_float_mul (round_double (of_int (sum_correct (results self)) /
                              of_int (int (length (results self))))) 100,
                   data_files = []\<rparr>])"
proof -
  from assms have "int (length (results self)) \<noteq> 0"
    by simp
  then have div: "py_truediv (sum_correct (results self)) (int (length (results self))) =
      Inr (of_int (sum_correct (results self)) / of_int (int (length (results self))))"
    by (simp add: py_truediv_def)
  from assms div show ?thesis
    by (simp add: save_session_def Let_def calculate_corsi_span_eq)
qed

lemma engine_inv_init:
  "engine_inv (CorsiEngine_init candidate)"
  by (simp add: engine_inv_def CorsiEngine_init_def span_records_def engine_consts)

lemma no_records_above:
  assumes "\<forall>r \<in> set rs. span_length r \<le> s"
  shows "filter (\<lambda>r. span_length r = s + 1) rs = []"
  using assms by (auto simp add: filter_empty_conv)

lemma engine_inv_submit_trial:
  assumes "engine_inv self"
  shows "engine_inv (snd (submit_trial self sq rsp now))"
proof -
  let ?new = "\<lparr>span_length = current_span self, trial_number = current_trial self,
         sequence = sq, response = rsp, correct = (sq = rsp), timestamp = now\<rparr>"
  let ?old = "filter (\<lambda>r. span_length r = current_span self) (results self)"
  let ?trials = "filter (\<lambda>r. span_length r = current_span self) (results self @ [?new])"
  from assms have lo: "MIN_SPAN \<le> current_span self" and hi: "current_span self \<le> MAX_SPAN"
    and below: "\<forall>r \<in> set (results self). span_length r \<le> current_span self"
    and count: "(length ?old = 0 \<and> current_trial self = 1)
          \<or> (length ?old = 1 \<and> current_trial self = 2)
          \<or> (2 \<le> length ?old \<and> current_trial self = 1 \<and> finished self)"
    by (simp_all add: engine_inv_def span_records_def Let_def)
  have trials: "?trials = ?old @ [?new]"
    by simp
  have above: "filter (\<lambda>r. span_length r = current_span self + 1) (results self @ [?new]) = []"
    using no_records_above [of "results self @ [?new]" "current_span self"] below by simp
  show ?thesis
  proof (cases "int (length ?trials) \<ge> TRIALS_PER_SPAN")
    case False
    then have empty: "?old = []"
      by (cases ?old) (simp_all add: engine_consts)
    with count have "current_trial self = 1"
      by simp
    with False lo hi below empty show ?thesis
      by (simp add: engine_inv_def submit_trial_def Let_def span_records_def)
  next
    case True
    then have two: "2 \<le> length ?trials"
      by (simp add: engine_consts)
    show ?thesis
    proof (cases "sum_correct ?trials = 0")
      case zero: True
      with True two lo hi below show ?thesis
        by (simp add: engine_inv_def submit_trial_def Let_def span_records_def)
    next
      case nonzero: False
      show ?thesis
      proof (cases "current_span self < MAX_SPAN")
        case adv: True
        have le: "\<forall>r \<in> set (results self). span_length r \<le> current_span self + 1"
          using below by auto
        from True nonzero adv lo le above show ?thesis
          by (simp add: engine_inv_def submit_trial_def Let_def span_records_def)
      next
        case top: False
        with True nonzero two lo hi below show ?thesis
          by (simp add: engine_inv_def submit_trial_def Let_def span_records_def)
      qed
    qed
  qed
qed

lemma engine_inv_apply_operation:
  "engine_inv self \<Longrightarrow> engine_inv (apply_operation self act)"
  by (cases act) (simp_all add: engine_inv_submit_trial)

lemma engine_inv_run:
  "engine_inv self \<Longrightarrow> engine_inv (run self ops)"
  unfolding run_def
  by (induction ops arbitrary: self) (simp_all add: engine_inv_apply_operation)

lemma run_append:
  "run self (ops @ ops') = run (run self ops) ops'"
  by (simp add: run_def)

lemma apply_operation_finished:
  "finished self \<Longrightarrow> finished (apply_operation self act)"
  by (cases act) (simp_all add: submit_trial_finished_mono)

lemma run_finished:
  "finished self \<Longrightarrow> finished (run self ops)"
  unfolding run_def
  by (induction ops arbitrary: self) (simp_all add: apply_operation_finished)

lemma apply_operation_prefix:
  "prefix (results self) (results (apply_operation self act))"
  by (cases act) (simp_all add: submit_trial_results)

lemma run_prefix:
  "prefix (results self) (results (run self ops))"
  unfolding run_def
proof (induction ops arbitrary: self)
  case Nil
  show ?case by simp
next
  case (Cons act ops)
  have "prefix (results self) (results (apply_operation self act))"
    by (rule apply_operation_prefix)
  also have "prefix \<dots> (results (foldl apply_operation (apply_operation self act) ops))"
    by (rule Cons.IH)
  finally show ?case by simp
qed

lemma engine_inv_trial_bounds:
  assumes "engine_inv self"
  shows "1 \<le> current_trial self \<and> current_trial self \<le> TRIALS_PER_SPAN"
  using assms by (auto simp add: engine_inv_def Let_def engine_consts)

lemma run_one_miss:
  "run (CorsiEngine_init example_candidate)
     [StartSession, NewSequence, SubmitTrial [0, 1] [1, 0] ''2024-01-01 10:00:00'']
   = engine_one_miss"
  by (simp add: run_def one_miss_reached)

lemma run_two_misses:
  "run (CorsiEngine_init example_candidate)
     [StartSession, NewSequence, SubmitTrial [0, 1] [1, 0] ''2024-01-01 10:00:00'',
      NewSequence, SubmitTrial [3, 4] [4, 3] ''2024-01-01 10:00:09'']
   = engine_two_misses"
  by (simp add: run_def one_miss_reached two_misses_reached)

lemma api_start_session_creates:
  "snd (api_start_session SESSIONS session_id candidate) session_id =
     Some (CorsiEngine_init candidate)"
  by (simp add: api_start_session_def Let_def)

lemma validate_candidate_info_nonpositive:
  assumes "info_dict ''candidate_name'' = Some name" and "name \<noteq> []"
    and "info_dict ''candidate_id'' = Some cid" and "cid \<noteq> []"
    and "info_dict ''session'' = Some s" and "py_int s = Some n" and "n < 1"
  shows "validate_candidate_info py_int info_dict = Inr False"
  using assms by (simp add: validate_candidate_info_def)

lemma validate_candidate_info_positive:
  assumes "info_dict ''candidate_name'' = Some name" and "name \<noteq> []"
    and "info_dict ''candidate_id'' = Some cid" and "cid \<noteq> []"
    and "info_dict ''session'' = Some s" and "py_int s = Some n" and "1 \<le> n"
  shows "validate_candidate_info py_int info_dict = Inr True"
  using assms by (simp add: validate_candidate_info_def)

lemma ceiling_reached:
  "run (CorsiEngine_init example_candidate) trials_to_ceiling = engine_at_ceiling"
  by (simp add: trials_to_ceiling_def engine_at_ceiling_def run_def submit_trial_def Let_def
      CorsiEngine_init_def sum_correct_def engine_consts)

lemma four_five_reached:
  "run (CorsiEngine_init example_candidate) trials_four_five = engine_four_five"
  by (simp add: trials_four_five_def engine_four_five_def run_def submit_trial_def Let_def
      CorsiEngine_init_def sum_correct_def engine_consts)

lemma two_of_six_reached:
  "run (CorsiEngine_init example_candidate) trials_two_of_six = engine_two_of_six"
  by (simp add: trials_two_of_six_def engine_two_of_six_def run_def submit_trial_def Let_def
      CorsiEngine_init_def sum_correct_def engine_consts)

lemma calculate_corsi_span_two_of_six:
  "calculate_corsi_span engine_two_of_six = Inr 3"
  by (simp add: calculate_corsi_span_def engine_two_of_six_def Let_def py_truediv_def
      sum_correct_def)

lemma finite_qualifying_spans:
  "finite (qualifying_spans rs)"
  by (simp add: qualifying_spans_def)

section \<open>Progression rules\<close>

text \<open>
  Claim C1 (discontinue rule). Take an engine that is not finished. If a call of
  \<^verbatim>\<open>submit_trial\<close> brings the number of records at the current span to
  \<^verbatim>\<open>TRIALS_PER_SPAN\<close> and none of those records is correct, then right after the
  call \<^verbatim>\<open>finished\<close> is true, \<^verbatim>\<open>current_span\<close> is unchanged and
  \<^verbatim>\<open>current_trial\<close> is 1. The condition is on the engine before the call and on
  the arguments: one record short of \<^verbatim>\<open>TRIALS_PER_SPAN\<close> at the current span, none of
  them correct, and a response that differs from the sequence.
\<close>

theorem discontinue_rule:
  assumes "\<not> finished self"
    and "int (length (span_records (current_span self) (results self))) = TRIALS_PER_SPAN - 1"
    and "\<forall>r \<in> set (span_records (current_span self) (results self)). \<not> correct r"
    and "sq \<noteq> rsp"
  shows "finished (snd (submit_trial self sq rsp now))
       \<and> current_span (snd (submit_trial self sq rsp now)) = current_span self
       \<and> current_trial (snd (submit_trial self sq rsp now)) = 1
       \<and> int (length (span_records (current_span self)
                  (results (snd (submit_trial self sq rsp now))))) = TRIALS_PER_SPAN"
proof -
  let ?new = "\<lparr>span_length = current_span self, trial_number = current_trial self,
         sequence = sq, response = rsp, correct = (sq = rsp), timestamp = now\<rparr>"
  let ?old = "filter (\<lambda>r. span_length r = current_span self) (results self)"
  let ?trials = "filter (\<lambda>r. span_length r = current_span self) (results self @ [?new])"
  have trials: "?trials = ?old @ [?new]"
    by simp
  from assms(2) have count: "int (length ?trials) = TRIALS_PER_SPAN"
    by (simp add: span_records_def)
  from assms(3,4) have "\<forall>r \<in> set ?trials. \<not> correct r"
    by (simp add: span_records_def)
  then have zero: "sum_correct ?trials = 0"
    by (simp only: sum_correct_zero_iff)
  from count have len: "int (length ?trials) \<ge> TRIALS_PER_SPAN"
    by simp
  from len zero have state: "finished (snd (submit_trial self sq rsp now))
       \<and> current_span (snd (submit_trial self sq rsp now)) = current_span self
       \<and> current_trial (snd (submit_trial self sq rsp now)) = 1"
    by (simp add: submit_trial_def Let_def)
  from count have "int (length (span_records (current_span self)
                  (results (snd (submit_trial self sq rsp now))))) = TRIALS_PER_SPAN"
    by (simp add: span_records_def submit_trial_results)
  with state show ?thesis
    by blast
qed

theorem discontinue_rule_witness:
  "\<not> finished engine_one_miss
   \<and> int (length (span_records (current_span engine_one_miss) (results engine_one_miss)))
       = TRIALS_PER_SPAN - 1
   \<and> [3, 4] \<noteq> [4, 3 :: int]
   \<and> finished (snd (submit_trial engine_one_miss [3, 4] [4, 3] ''2024-01-01 10:00:09''))
   \<and> current_span (snd (submit_trial engine_one_miss [3, 4] [4, 3] ''2024-01-01 10:00:09''))
       = current_span engine_one_miss
   \<and> current_trial (snd (submit_trial engine_one_miss [3, 4] [4, 3] ''2024-01-01 10:00:09''))
       = 1"
proof -
  have h1: "\<not> finished engine_one_miss"
    by (simp add: engine_one_miss_def)
  have h2: "int (length (span_records (current_span engine_one_miss)
              (results engine_one_miss))) = TRIALS_PER_SPAN - 1"
    by (simp add: engine_one_miss_def span_records_def engine_consts)
  have h3: "\<forall>r \<in> set (span_records (current_span engine_one_miss)
              (results engine_one_miss)). \<not> correct r"
    by (simp add: engine_one_miss_def span_records_def)
  have h4: "[3, 4] \<noteq> [4, 3 :: int]"
    by simp
  from discontinue_rule [OF h1 h2 h3 h4, of "''2024-01-01 10:00:09''"] h1 h2 h4
  show ?thesis by blast
qed

text \<open>
  Claim C2 (advancement). Take an engine that is not finished, at a span \<open>S\<close> below
  \<^verbatim>\<open>MAX_SPAN\<close>. If a call of \<^verbatim>\<open>submit_trial\<close> brings the number of records at
  \<open>S\<close> to \<^verbatim>\<open>TRIALS_PER_SPAN\<close> and at least one of those records is correct, then
  after the call \<^verbatim>\<open>current_span\<close> is \<open>S + 1\<close>, \<^verbatim>\<open>current_trial\<close> is 1 and
  \<^verbatim>\<open>finished\<close> is still false. The condition is on the engine before the call and
  on the arguments: one record short of \<^verbatim>\<open>TRIALS_PER_SPAN\<close> at \<open>S\<close>, and either one
  of them correct or a response equal to the sequence.
\<close>

theorem advancement_rule:
  assumes "\<not> finished self"
    and "current_span self < MAX_SPAN"
    and "int (length (span_records (current_span self) (results self))) = TRIALS_PER_SPAN - 1"
    and "(\<exists>r \<in> set (span_records (current_span self) (results self)). correct r) \<or> sq = rsp"
  shows "current_span (snd (submit_trial self sq rsp now)) = current_span self + 1
       \<and> current_trial (snd (submit_trial self sq rsp now)) = 1
       \<and> \<not> finished (snd (submit_trial self sq rsp now))
       \<and> int (length (span_records (current_span self)
                  (results (snd (submit_trial self sq rsp now))))) = TRIALS_PER_SPAN"
proof -
  let ?new = "\<lparr>span_length = current_span self, trial_number = current_trial self,
         sequence = sq, response = rsp, correct = (sq = rsp), timestamp = now\<rparr>"
  let ?trials = "filter (\<lambda>r. span_length r = current_span self) (results self @ [?new])"
  from assms(3) have count: "int (length ?trials) = TRIALS_PER_SPAN"
    by (simp add: span_records_def)
  from assms(4) have "\<not> (\<forall>r \<in> set ?trials. \<not> correct r)"
    by (auto simp add: span_records_def)
  then have nonzero: "sum_correct ?trials \<noteq> 0"
    by (simp only: sum_correct_zero_iff not_False_eq_True)
  from count have len: "int (length ?trials) \<ge> TRIALS_PER_SPAN"
    by simp
  from len nonzero assms(1,2)
  have state: "current_span (snd (submit_trial self sq rsp now)) = current_span self + 1
       \<and> current_trial (snd (submit_trial self sq rsp now)) = 1
       \<and> \<not> finished (snd (submit_trial self sq rsp now))"
    by (simp add: submit_trial_def Let_def)
  from count have "int (length (span_records (current_span self)
                  (results (snd (submit_trial self sq rsp now))))) = TRIALS_PER_SPAN"
    by (simp add: span_records_def submit_trial_results)
  with state show ?thesis
    by blast
qed

theorem advancement_rule_witness:
  "\<not> finished engine_one_miss \<and> current_span engine_one_miss < MAX_SPAN
   \<and> current_span engine_one_miss = 2
   \<and> int (length (span_records (current_span engine_one_miss) (results engine_one_miss)))
       = TRIALS_PER_SPAN - 1
   \<and> current_span (snd (submit_trial engine_one_miss [3, 4] [3, 4] ''2024-01-01 10:00:09''))
       = 3
   \<and> current_trial (snd (submit_trial engine_one_miss [3, 4] [3, 4] ''2024-01-01 10:00:09''))
       = 1
   \<and> \<not> finished (snd (submit_trial engine_one_miss [3, 4] [3, 4] ''2024-01-01 10:00:09''))"
proof -
  have h1: "\<not> finished engine_one_miss"
    by (simp add: engine_one_miss_def)
  have h2: "current_span engine_one_miss < MAX_SPAN"
    by (simp add: engine_one_miss_def engine_consts)
  have h3: "int (length (span_records (current_span engine_one_miss)
              (results engine_one_miss))) = TRIALS_PER_SPAN - 1"
    by (simp add: engine_one_miss_def span_records_def engine_consts)
  have h4: "(\<exists>r \<in> set (span_records (current_span engine_one_miss)
               (results engine_one_miss)). correct r) \<or> [3, 4] = [3, 4 :: int]"
    by simp
  have s: "current_span engine_one_miss = 2"
    by (simp add: engine_one_miss_def)
  from advancement_rule [OF h1 h2 h3 h4, of "''2024-01-01 10:00:09''"] h1 h2 h3 s
  show ?thesis by simp
qed

text \<open>
  Claim C3 (ceiling). Take an engine that is not finished, at span \<^verbatim>\<open>MAX_SPAN\<close>. If a
  call of \<^verbatim>\<open>submit_trial\<close> brings the number of records at \<^verbatim>\<open>MAX_SPAN\<close> to
  \<^verbatim>\<open>TRIALS_PER_SPAN\<close> and at least one of those records is correct, then after the
  call \<^verbatim>\<open>finished\<close> is true and \<^verbatim>\<open>current_span\<close> is still \<^verbatim>\<open>MAX_SPAN\<close>. The
  condition is on the engine before the call and on the arguments: one record short of
  \<^verbatim>\<open>TRIALS_PER_SPAN\<close> at \<^verbatim>\<open>MAX_SPAN\<close>, and either one of them correct or a response
  equal to the sequence.
\<close>

theorem ceiling_rule:
  assumes "\<not> finished self"
    and "current_span self = MAX_SPAN"
    and "int (length (span_records (current_span self) (results self))) = TRIALS_PER_SPAN - 1"
    and "(\<exists>r \<in> set (span_records (current_span self) (results self)). correct r) \<or> sq = rsp"
  shows "finished (snd (submit_trial self sq rsp now))
       \<and> current_span (snd (submit_trial self sq rsp now)) = MAX_SPAN
       \<and> current_trial (snd (submit_trial self sq rsp now)) = 1
       \<and> int (length (span_records MAX_SPAN
                  (results (snd (submit_trial self sq rsp now))))) = TRIALS_PER_SPAN"
proof -
  let ?new = "\<lparr>span_length = current_span self, trial_number = current_trial self,
         sequence = sq, response = rsp, correct = (sq = rsp), timestamp = now\<rparr>"
  let ?trials = "filter (\<lambda>r. span_length r = current_span self) (results self @ [?new])"
  from assms(3) have count: "int (length ?trials) = TRIALS_PER_SPAN"
    by (simp add: span_records_def)
  from assms(4) have "\<not> (\<forall>r \<in> set ?trials. \<not> correct r)"
    by (auto simp add: span_records_def)
  then have nonzero: "sum_correct ?trials \<noteq> 0"
    by (simp only: sum_correct_zero_iff not_False_eq_True)
  from count have len: "int (length ?trials) \<ge> TRIALS_PER_SPAN"
    by simp
  from len nonzero assms(1,2)
  have state: "finished (snd (submit_trial self sq rsp now))
       \<and> current_span (snd (submit_trial self sq rsp now)) = MAX_SPAN
       \<and> current_trial (snd (submit_trial self sq rsp now)) = 1"
    by (simp add: submit_trial_def Let_def)
  from count assms(2) have "int (length (span_records MAX_SPAN
                  (results (snd (submit_trial self sq rsp now))))) = TRIALS_PER_SPAN"
    by (simp add: span_records_def submit_trial_results)
  with state show ?thesis
    by blast
qed

theorem ceiling_rule_witness:
  "\<not> finished engine_at_ceiling \<and> current_span engine_at_ceiling = MAX_SPAN
   \<and> int (length (span_records (current_span engine_at_ceiling) (results engine_at_ceiling)))
       = TRIALS_PER_SPAN - 1
   \<and> finished (snd (submit_trial engine_at_ceiling [8, 7, 6, 5, 4, 3, 2, 1]
                      [8, 7, 6, 5, 4, 3, 2, 1] ''2024-01-01 10:05:30''))
   \<and> current_span (snd (submit_trial engine_at_ceiling [8, 7, 6, 5, 4, 3, 2, 1]
                      [8, 7, 6, 5, 4, 3, 2, 1] ''2024-01-01 10:05:30'')) = 8"
proof -
  have h1: "\<not> finished engine_at_ceiling"
    by (simp add: engine_at_ceiling_def)
  have h2: "current_span engine_at_ceiling = MAX_SPAN"
    by (simp add: engine_at_ceiling_def engine_consts)
  have h3: "int (length (span_records (current_span engine_at_ceiling)
              (results engine_at_ceiling))) = TRIALS_PER_SPAN - 1"
    by (simp add: engine_at_ceiling_def span_records_def engine_consts)
  have h4: "(\<exists>r \<in> set (span_records (current_span engine_at_ceiling)
               (results engine_at_ceiling)). correct r)
            \<or> [8, 7, 6, 5, 4, 3, 2, 1] = [8, 7, 6, 5, 4, 3, 2, 1 :: int]"
    by simp
  from ceiling_rule [OF h1 h2 h3 h4, of "''2024-01-01 10:05:30''"] h1 h2 h3
  show ?thesis by (simp add: MAX_SPAN_def)
qed

section \<open>Scoring of a trial\<close>

text \<open>
  Claim C5 (order sensitivity). \<^verbatim>\<open>submit_trial\<close> reports and records
  \<^verbatim>\<open>correct = True\<close> exactly when the response equals the sequence as an ordered
  list: same length and the same element at every position. In particular the response
  \<open>[2, 1, 5]\<close> to the sequence \<open>[2, 5, 1]\<close> is recorded as not correct, and so is every
  response shorter or longer than the sequence.
\<close>

theorem order_sensitivity:
  "outcome_correct (fst (submit_trial self sq rsp now)) =
     (length rsp = length sq \<and> (\<forall>i < length sq. rsp ! i = sq ! i))
   \<and> correct (last (results (snd (submit_trial self sq rsp now)))) =
     (length rsp = length sq \<and> (\<forall>i < length sq. rsp ! i = sq ! i))
   \<and> \<not> outcome_correct (fst (submit_trial self [2, 5, 1] [2, 1, 5] now))
   \<and> \<not> correct (last (results (snd (submit_trial self [2, 5, 1] [2, 1, 5] now))))
   \<and> (length rsp \<noteq> length sq \<longrightarrow>
        \<not> outcome_correct (fst (submit_trial self sq rsp now))
      \<and> \<not> correct (last (results (snd (submit_trial self sq rsp now)))))"
proof -
  have eq: "(sq = rsp) = (length rsp = length sq \<and> (\<forall>i < length sq. rsp ! i = sq ! i))"
    by (auto simp add: list_eq_iff_nth_eq)
  have ex: "[2, 5, 1] \<noteq> [2, 1, 5 :: int]"
    by simp
  have len: "length rsp \<noteq> length sq \<longrightarrow> sq \<noteq> rsp"
    by auto
  show ?thesis
    unfolding submit_trial_outcome_correct submit_trial_last_correct
    using eq ex len by blast
qed

theorem order_sensitivity_witness:
  "\<not> outcome_correct (fst (submit_trial engine_one_miss [2, 5, 1] [2, 1, 5] ''2024-01-01 10:00:09''))
   \<and> \<not> correct (last (results (snd (submit_trial engine_one_miss [2, 5, 1] [2, 5]
          ''2024-01-01 10:00:09''))))
   \<and> outcome_correct (fst (submit_trial engine_one_miss [2, 5] [2, 5] ''2024-01-01 10:00:09''))"
  using order_sensitivity [of engine_one_miss "[2, 5, 1]" "[2, 1, 5]" "''2024-01-01 10:00:09''"]
    order_sensitivity [of engine_one_miss "[2, 5, 1]" "[2, 5]" "''2024-01-01 10:00:09''"]
    order_sensitivity [of engine_one_miss "[2, 5]" "[2, 5]" "''2024-01-01 10:00:09''"]
  by simp

section \<open>Trials submitted after the engine has finished\<close>

text \<open>
  Claim C6 states that a call of \<^verbatim>\<open>submit_trial\<close> on a finished engine leaves
  \<^verbatim>\<open>results\<close>, \<^verbatim>\<open>current_span\<close> and \<^verbatim>\<open>current_trial\<close> as they were.
  \<^verbatim>\<open>submit_trial\<close> does not read \<^verbatim>\<open>finished\<close> before it appends: on the engine
  discontinued at span 2, a further correct answer is recorded and moves the engine to
  span 3.
\<close>

theorem post_finish_counterexample:
  "finished engine_two_misses
   \<and> results (snd (submit_trial engine_two_misses [0, 1] [0, 1] ''2024-01-01 10:00:20''))
       \<noteq> results engine_two_misses
   \<and> current_span (snd (submit_trial engine_two_misses [0, 1] [0, 1] ''2024-01-01 10:00:20''))
       \<noteq> current_span engine_two_misses"
  by (simp add: engine_two_misses_def submit_trial_def Let_def sum_correct_def engine_consts)

text \<open>
  Claim C6, as the code has it. A call of \<^verbatim>\<open>submit_trial\<close> on a finished engine is
  accepted: it appends exactly one record, carrying the current span, the current trial
  number and the comparison of sequence and response, after the records already there,
  and \<^verbatim>\<open>finished\<close> stays true.
\<close>

theorem post_finish_accepted:
  assumes "finished self"
  shows "results (snd (submit_trial self sq rsp now)) =
           results self @
             [\<lparr>span_length = current_span self, trial_number = current_trial self,
               sequence = sq, response = rsp, correct = (sq = rsp), timestamp = now\<rparr>]
       \<and> finished (snd (submit_trial self sq rsp now))"
  using assms submit_trial_results submit_trial_finished_mono by simp

theorem post_finish_accepted_witness:
  "finished engine_two_misses
   \<and> length (results (snd (submit_trial engine_two_misses [0, 1] [0, 1] ''2024-01-01 10:00:20'')))
       = 3
   \<and> finished (snd (submit_trial engine_two_misses [0, 1] [0, 1] ''2024-01-01 10:00:20''))"
proof -
  have h: "finished engine_two_misses"
    by (simp add: engine_two_misses_def)
  have l: "length (results engine_two_misses) = 2"
    by (simp add: engine_two_misses_def)
  from post_finish_accepted [OF h, of "[0, 1]" "[0, 1]" "''2024-01-01 10:00:20''"] h l
  show ?thesis by simp
qed

section \<open>The span score\<close>

text \<open>
  Claim C4 (span score). For every results list \<^verbatim>\<open>calculate_corsi_span\<close> returns the
  largest span present in the results whose accuracy (correct records divided by records,
  at that span) is at least one half, and returns 0 when no span qualifies, which includes
  the empty results list. In particular, on results where span 4 has accuracy 1, span 5
  has accuracy 0 and no span above 5 is recorded, it returns 4.
\<close>

theorem span_score:
  "(qualifying_spans (results self) = {} \<longrightarrow> calculate_corsi_span self = Inr 0)
   \<and> (qualifying_spans (results self) \<noteq> {} \<longrightarrow>
        calculate_corsi_span self = Inr (Max (qualifying_spans (results self))))
   \<and> (results self = [] \<longrightarrow> calculate_corsi_span self = Inr 0)
   \<and> (4 \<in> span_length ` set (results self)
        \<and> span_accuracy (results self) 4 = 1 \<and> span_accuracy (results self) 5 = 0
        \<and> (\<forall>s \<in> span_length ` set (results self). s \<le> 5) \<longrightarrow>
        calculate_corsi_span self = Inr 4)"
proof -
  have general: "calculate_corsi_span self = Inr (spec_span_score (results self))"
    by (rule calculate_corsi_span_eq)
  have empty: "results self = [] \<longrightarrow> calculate_corsi_span self = Inr 0"
    using general by (simp add: spec_span_score_def qualifying_spans_Nil)
  have four: "calculate_corsi_span self = Inr 4"
    if present: "4 \<in> span_length ` set (results self)"
      and acc4: "span_accuracy (results self) 4 = 1"
      and acc5: "span_accuracy (results self) 5 = 0"
      and top: "\<forall>s \<in> span_length ` set (results self). s \<le> 5"
  proof -
    from present acc4 have member: "4 \<in> qualifying_spans (results self)"
      by (simp add: qualifying_spans_def)
    have bound: "q \<le> 4" if "q \<in> qualifying_spans (results self)" for q
    proof -
      from that top have "q \<le> 5"
        by (auto simp add: qualifying_spans_def)
      moreover from that acc5 have "q \<noteq> 5"
        by (auto simp add: qualifying_spans_def)
      ultimately show ?thesis by simp
    qed
    from finite_qualifying_spans bound member
    have "Max (qualifying_spans (results self)) = 4"
      by (rule Max_eqI)
    with general member show ?thesis
      by (auto simp add: spec_span_score_def)
  qed
  from general empty four show ?thesis
    by (simp add: spec_span_score_def)
qed

theorem span_score_witness:
  "4 \<in> span_length ` set (results engine_four_five)
   \<and> span_accuracy (results engine_four_five) 4 = 1
   \<and> span_accuracy (results engine_four_five) 5 = 0
   \<and> span_length ` set (results engine_four_five) = {2, 3, 4, 5}
   \<and> calculate_corsi_span engine_four_five = Inr 4
   \<and> qualifying_spans (results engine_four_five) \<noteq> {}
   \<and> calculate_corsi_span engine_four_five =
        Inr (Max (qualifying_spans (results engine_four_five)))
   \<and> results (CorsiEngine_init example_candidate) = []
   \<and> qualifying_spans (results (CorsiEngine_init example_candidate)) = {}
   \<and> calculate_corsi_span (CorsiEngine_init example_candidate) = Inr 0"
proof -
  have present: "4 \<in> span_length ` set (results engine_four_five)"
    by (simp add: engine_four_five_def)
  have acc4: "span_accuracy (results engine_four_five) 4 = 1"
    by (simp add: engine_four_five_def span_accuracy_def span_records_def)
  have acc5: "span_accuracy (results engine_four_five) 5 = 0"
    by (simp add: engine_four_five_def span_accuracy_def span_records_def)
  have spans: "span_length ` set (results engine_four_five) = {2, 3, 4, 5}"
    by (auto simp add: engine_four_five_def)
  then have top: "\<forall>s \<in> span_length ` set (results engine_four_five). s \<le> 5"
    by simp
  from present acc4 have "4 \<in> qualifying_spans (results engine_four_five)"
    by (simp add: qualifying_spans_def)
  then have q: "qualifying_spans (results engine_four_five) \<noteq> {}"
    by blast
  have fresh: "results (CorsiEngine_init example_candidate) = []"
    by (simp add: CorsiEngine_init_def)
  then have q0: "qualifying_spans (results (CorsiEngine_init example_candidate)) = {}"
    by (simp add: qualifying_spans_def)
  from span_score [of engine_four_five] present acc4 acc5 top
  have four: "calculate_corsi_span engine_four_five = Inr 4"
    by blast
  from span_score [of engine_four_five] q
  have largest: "calculate_corsi_span engine_four_five =
        Inr (Max (qualifying_spans (results engine_four_five)))"
    by blast
  from span_score [of "CorsiEngine_init example_candidate"] fresh
  have zero: "calculate_corsi_span (CorsiEngine_init example_candidate) = Inr 0"
    by blast
  from present acc4 acc5 spans four q largest fresh q0 zero
  show ?thesis by blast
qed

section \<open>Saving the session\<close>

text \<open>
  Claim C8 states that the summary of a non-empty results list has
  \<open>accuracy = 100 * correct_trials / total_trials\<close>. \<^verbatim>\<open>save_session\<close> computes
  \<^verbatim>\<open>(correct_trials / total_trials) * 100\<close> in floats, rounding the quotient and then
  the product: after the six trials of \<open>trials_two_of_six\<close>, two of them correct, the
  accuracy saved is the double \<open>33.33333333333333\<close>, which is not \<open>100 * 2 / 6\<close>.
\<close>

theorem finalization_counterexample:
  "save_session engine_two_of_six ''2024-01-01 10:01:00'' [] =
     Inr (Some \<lparr>session_number = 1, test_date = ''2024-01-01 10:01:00'', corsi_span = 3,
                total_trials = 6, correct_trials = 2,
                accuracy = 2345624805922133 / 70368744177664, data_files = []\<rparr>,
          [SaveCandidate example_candidate,
           SaveTestSession ''c1''
             \<lparr>session_number = 1, test_date = ''2024-01-01 10:01:00'', corsi_span = 3,
              total_trials = 6, correct_trials = 2,
              accuracy = 2345624805922133 / 70368744177664, data_files = []\<rparr>])
   \<and> (2345624805922133 / 70368744177664 :: rat) \<noteq> 100 * 2 / 6"
proof -
  have res: "results engine_two_of_six \<noteq> []"
    by (simp add: engine_two_of_six_def)
  have total: "int (length (results engine_two_of_six)) = 6"
    by (simp add: engine_two_of_six_def)
  have right: "sum_correct (results engine_two_of_six) = 2"
    by (simp add: engine_two_of_six_def sum_correct_def)
  have acc: "py_float_mul (round_double (of_int 2 / of_int 6)) 100 =
               2345624805922133 / 70368744177664"
    by (simp add: double_eval)
  have who: "info engine_two_of_six = example_candidate"
    by (simp add: engine_two_of_six_def)
  have score: "spec_span_score (results engine_two_of_six) = 3"
    using calculate_corsi_span_two_of_six calculate_corsi_span_eq [of engine_two_of_six]
    by simp
  have differ: "(2345624805922133 / 70368744177664 :: rat) \<noteq> 100 * 2 / 6"
    by simp
  from save_session_nonempty [OF res, of "''2024-01-01 10:01:00''" "[]"]
  have "save_session engine_two_of_six ''2024-01-01 10:01:00'' [] =
     Inr (Some \<lparr>session_number = 1, test_date = ''2024-01-01 10:01:00'', corsi_span = 3,
                total_trials = 6, correct_trials = 2,
                accuracy = 2345624805922133 / 70368744177664, data_files = []\<rparr>,
          [SaveCandidate example_candidate,
           SaveTestSession ''c1''
             \<lparr>session_number = 1, test_date = ''2024-01-01 10:01:00'', corsi_span = 3,
              total_trials = 6, correct_trials = 2,
              accuracy = 2345624805922133 / 70368744177664, data_files = []\<rparr>])"
    unfolding total right acc who score by (simp add: example_candidate_def)
  with differ show ?thesis
    by blast
qed

text \<open>
  Claim C8 (finalization), as the code has it. On an empty results list
  \<^verbatim>\<open>save_session\<close> returns the empty result and requests no write. On a non-empty
  results list it returns a summary whose \<^verbatim>\<open>total_trials\<close> is the length of the
  results, whose \<^verbatim>\<open>correct_trials\<close> is the number of correct records and whose
  \<^verbatim>\<open>corsi_span\<close> is the value of \<^verbatim>\<open>calculate_corsi_span\<close>; its \<^verbatim>\<open>accuracy\<close> is the
  double obtained by rounding \<open>correct_trials / total_trials\<close>, multiplying by 100 and
  rounding again, which lies within \<open>1 / 2 ^ 45\<close> of
  \<open>100 * correct_trials / total_trials\<close>; and it requests the write of the candidate and
  of that summary.
\<close>

theorem finalization:
  "(results self = [] \<longrightarrow> save_session self now db = Inr (None, db))
   \<and> (results self \<noteq> [] \<longrightarrow>
        (\<exists>summary.
           save_session self now db =
             Inr (Some summary,
                  db @ [SaveCandidate (info self),
                        SaveTestSession (candidate_id (info self)) summary])
           \<and> total_trials summary = int (length (results self))
           \<and> correct_trials summary = int (length (filter correct (results self)))
           \<and> accuracy summary =
               py_float_mul
                 (round_double
                    (of_int (correct_trials summary) / of_int (total_trials summary))) 100
           \<and> \<bar>accuracy summary
                - 100 * of_int (correct_trials summary) / of_int (total_trials summary)\<bar>
               \<le> 1 / 2 ^ 45
           \<and> calculate_corsi_span self = Inr (corsi_span summary)))"
proof (intro conjI impI)
  assume "results self = []"
  then show "save_session self now db = Inr (None, db)"
    by (rule save_session_empty)
next
  assume nonempty: "results self \<noteq> []"
  let ?c = "int (length (filter correct (results self)))"
  let ?t = "int (length (results self))"
  have c0: "0 \<le> ?c" and ct: "?c \<le> ?t"
    by simp_all
  from nonempty have t0: "0 < ?t"
    by simp
  from accuracy_error [OF c0 ct t0]
  have bound: "\<bar>py_float_mul (round_double (of_int ?c / of_int ?t)) 100
                 - 100 * of_int ?c / of_int ?t\<bar> \<le> 1 / 2 ^ 45" .
  from save_session_nonempty [OF nonempty, of now db] bound
  show "\<exists>summary.
           save_session self now db =
             Inr (Some summary,
                  db @ [SaveCandidate (info self),
                        SaveTestSession (candidate_id (info self)) summary])
           \<and> total_trials summary = int (length (results self))
           \<and> correct_trials summary = int (length (filter correct (results self)))
           \<and> accuracy summary =
               py_float_mul
                 (round_double
                    (of_int (correct_trials summary) / of_int (total_trials summary))) 100
           \<and> \<bar>accuracy summary
                - 100 * of_int (correct_trials summary) / of_int (total_trials summary)\<bar>
               \<le> 1 / 2 ^ 45
           \<and> calculate_corsi_span self = Inr (corsi_span summary)"
    by (simp add: sum_correct_eq_length calculate_corsi_span_eq)
qed

theorem finalization_witness:
  "results (CorsiEngine_init example_candidate) = []
   \<and> save_session (CorsiEngine_init example_candidate) ''2024-01-01 10:02:00'' [] =
       Inr (None, [])
   \<and> results engine_four_five \<noteq> []
   \<and> (\<exists>summary.
         save_session engine_four_five ''2024-01-01 10:02:00'' [] =
           Inr (Some summary,
                [SaveCandidate example_candidate, SaveTestSession ''c1'' summary])
         \<and> total_trials summary = 8 \<and> correct_trials summary = 5
         \<and> accuracy summary = 125 / 2 \<and> corsi_span summary = 4)"
proof -
  have fresh: "results (CorsiEngine_init example_candidate) = []"
    by (simp add: CorsiEngine_init_def)
  have full: "results engine_four_five \<noteq> []"
    by (simp add: engine_four_five_def)
  have len: "int (length (results engine_four_five)) = 8"
    by (simp add: engine_four_five_def)
  have cor: "int (length (filter correct (results engine_four_five))) = 5"
    by (simp add: engine_four_five_def)
  have inf: "info engine_four_five = example_candidate"
    by (simp add: engine_four_five_def)
  have cid: "candidate_id example_candidate = ''c1''"
    by (simp add: example_candidate_def)
  have five_eighths: "py_float_mul (round_double (of_int 5 / of_int 8)) 100 = 125 / 2"
    by (simp add: double_eval)
  from finalization [of "CorsiEngine_init example_candidate" "''2024-01-01 10:02:00''" "[]"]
    fresh
  have a: "save_session (CorsiEngine_init example_candidate) ''2024-01-01 10:02:00'' [] =
       Inr (None, [])"
    by simp
  from finalization [of engine_four_five "''2024-01-01 10:02:00''" "[]"] full
  obtain summary where
    s: "save_session engine_four_five ''2024-01-01 10:02:00'' [] =
          Inr (Some summary,
               [] @ [SaveCandidate (info engine_four_five),
                     SaveTestSession (candidate_id (info engine_four_five)) summary])"
    and t: "total_trials summary = int (length (results engine_four_five))"
    and c: "correct_trials summary = int (length (filter correct (results engine_four_five)))"
    and p: "accuracy summary =
               py_float_mul
                 (round_double
                    (of_int (correct_trials summary) / of_int (total_trials summary))) 100"
    and k: "calculate_corsi_span engine_four_five = Inr (corsi_span summary)"
    by blast
  from k calculate_corsi_span_four_five have k4: "corsi_span summary = 4"
    by simp
  from p t c len cor five_eighths have p50: "accuracy summary = 125 / 2"
    by simp
  from s inf cid t c len cor p50 k4 fresh a full show ?thesis
    by auto
qed

section \<open>Division by zero\<close>

text \<open>
  Claim C10 (no division by zero). Every span \<^verbatim>\<open>calculate_corsi_span\<close> iterates over
  comes from the results, so the list of its records is not empty and the accuracy
  division succeeds; \<^verbatim>\<open>calculate_corsi_span\<close> returns a number for every results list.
  The division of \<^verbatim>\<open>save_session\<close> is behind the check for empty results, and
  \<^verbatim>\<open>save_session\<close> returns for every results list. The method of the same name in
  task/corsi\_task.py has the same loop.
\<close>

theorem no_division_by_zero:
  "(\<forall>s \<in> set (remdups (map span_length (results self))).
      length (filter (\<lambda>r. span_length r = s) (results self)) \<noteq> 0
      \<and> (\<exists>q. py_truediv (sum_correct (filter (\<lambda>r. span_length r = s) (results self)))
                (int (length (filter (\<lambda>r. span_length r = s) (results self)))) = Inr q))
   \<and> (\<exists>n. calculate_corsi_span self = Inr n)
   \<and> (\<exists>out. save_session self now db = Inr out)"
proof (intro conjI ballI)
  fix s
  assume "s \<in> set (remdups (map span_length (results self)))"
  then have s_in: "s \<in> span_length ` set (results self)"
    by simp
  from span_records_nonempty [OF s_in]
  show "length (filter (\<lambda>r. span_length r = s) (results self)) \<noteq> 0"
    by (simp add: span_records_def)
  from py_truediv_span [OF s_in]
  show "\<exists>q. py_truediv (sum_correct (filter (\<lambda>r. span_length r = s) (results self)))
                (int (length (filter (\<lambda>r. span_length r = s) (results self)))) = Inr q"
    by blast
next
  show "\<exists>n. calculate_corsi_span self = Inr n"
    by (simp add: calculate_corsi_span_eq)
next
  show "\<exists>out. save_session self now db = Inr out"
  proof (cases "results self = []")
    case True
    then show ?thesis by (simp add: save_session_empty)
  next
    case False
    then show ?thesis by (simp add: save_session_nonempty)
  qed
qed

theorem no_division_by_zero_witness:
  "set (remdups (map span_length (results engine_four_five))) = {2, 3, 4, 5}
   \<and> length (filter (\<lambda>r. span_length r = 5) (results engine_four_five)) \<noteq> 0
   \<and> (\<exists>q. py_truediv (sum_correct (filter (\<lambda>r. span_length r = 5) (results engine_four_five)))
                (int (length (filter (\<lambda>r. span_length r = 5) (results engine_four_five))))
            = Inr q)
   \<and> (\<exists>n. calculate_corsi_span engine_four_five = Inr n)
   \<and> (\<exists>out. save_session engine_four_five ''2024-01-01 10:02:00'' [] = Inr out)"
proof -
  have spans: "set (remdups (map span_length (results engine_four_five))) = {2, 3, 4, 5}"
    by (auto simp add: engine_four_five_def)
  then have five: "5 \<in> set (remdups (map span_length (results engine_four_five)))"
    by simp
  from no_division_by_zero [of engine_four_five "''2024-01-01 10:02:00''" "[]"] five spans
  show ?thesis by blast
qed

section \<open>Invariants of the engine state\<close>

text \<open>
  Claim C7 (state invariants). A fresh engine has \<^verbatim>\<open>current_span = MIN_SPAN\<close>,
  \<^verbatim>\<open>current_trial = 1\<close>, \<^verbatim>\<open>finished = False\<close> and no results. After any sequence
  of operations from there: while \<^verbatim>\<open>finished\<close> is false, \<^verbatim>\<open>current_span\<close> lies
  between \<^verbatim>\<open>MIN_SPAN\<close> and \<^verbatim>\<open>MAX_SPAN\<close>; \<^verbatim>\<open>current_trial\<close> lies between 1 and
  \<^verbatim>\<open>TRIALS_PER_SPAN\<close>; once \<^verbatim>\<open>finished\<close> is true it stays true under any further
  operations; and the results after any further operations begin with the results as they
  are now, so that records are only ever appended.
\<close>

theorem state_invariants:
  "current_span (CorsiEngine_init candidate) = MIN_SPAN
   \<and> current_trial (CorsiEngine_init candidate) = 1
   \<and> \<not> finished (CorsiEngine_init candidate)
   \<and> results (CorsiEngine_init candidate) = []
   \<and> (\<not> finished (run (CorsiEngine_init candidate) ops) \<longrightarrow>
        MIN_SPAN \<le> current_span (run (CorsiEngine_init candidate) ops)
        \<and> current_span (run (CorsiEngine_init candidate) ops) \<le> MAX_SPAN)
   \<and> 1 \<le> current_trial (run (CorsiEngine_init candidate) ops)
   \<and> current_trial (run (CorsiEngine_init candidate) ops) \<le> TRIALS_PER_SPAN
   \<and> (finished (run (CorsiEngine_init candidate) ops) \<longrightarrow>
        finished (run (CorsiEngine_init candidate) (ops @ ops')))
   \<and> prefix (results (run (CorsiEngine_init candidate) ops))
        (results (run (CorsiEngine_init candidate) (ops @ ops')))"
proof -
  let ?e = "run (CorsiEngine_init candidate) ops"
  have inv: "engine_inv ?e"
    by (rule engine_inv_run) (rule engine_inv_init)
  then have span: "MIN_SPAN \<le> current_span ?e \<and> current_span ?e \<le> MAX_SPAN"
    by (simp add: engine_inv_def)
  from inv have trial: "1 \<le> current_trial ?e \<and> current_trial ?e \<le> TRIALS_PER_SPAN"
    by (rule engine_inv_trial_bounds)
  have fin: "finished ?e \<longrightarrow> finished (run (CorsiEngine_init candidate) (ops @ ops'))"
    by (simp add: run_append run_finished)
  have pre: "prefix (results ?e) (results (run (CorsiEngine_init candidate) (ops @ ops')))"
    by (simp add: run_append run_prefix)
  from span trial fin pre show ?thesis
    by (simp add: CorsiEngine_init_def)
qed

theorem state_invariants_witness:
  "\<not> finished (run (CorsiEngine_init example_candidate)
       [StartSession, NewSequence, SubmitTrial [0, 1] [1, 0] ''2024-01-01 10:00:00''])
   \<and> MIN_SPAN \<le> current_span engine_one_miss \<and> current_span engine_one_miss \<le> MAX_SPAN
   \<and> 1 \<le> current_trial engine_one_miss \<and> current_trial engine_one_miss \<le> TRIALS_PER_SPAN
   \<and> finished (run (CorsiEngine_init example_candidate)
       [StartSession, NewSequence, SubmitTrial [0, 1] [1, 0] ''2024-01-01 10:00:00'',
        NewSequence, SubmitTrial [3, 4] [4, 3] ''2024-01-01 10:00:09''])
   \<and> finished (run (CorsiEngine_init example_candidate)
       ([StartSession, NewSequence, SubmitTrial [0, 1] [1, 0] ''2024-01-01 10:00:00'',
         NewSequence, SubmitTrial [3, 4] [4, 3] ''2024-01-01 10:00:09'']
        @ [SubmitTrial [0, 1] [0, 1] ''2024-01-01 10:00:20'', SaveSession ''2024-01-01 10:00:21'']))
   \<and> prefix (results engine_two_misses)
       (results (run (CorsiEngine_init example_candidate)
       ([StartSession, NewSequence, SubmitTrial [0, 1] [1, 0] ''2024-01-01 10:00:00'',
         NewSequence, SubmitTrial [3, 4] [4, 3] ''2024-01-01 10:00:09'']
        @ [SubmitTrial [0, 1] [0, 1] ''2024-01-01 10:00:20'', SaveSession ''2024-01-01 10:00:21''])))"
proof -
  have open_state: "\<not> finished engine_one_miss"
    by (simp add: engine_one_miss_def)
  have closed_state: "finished engine_two_misses"
    by (simp add: engine_two_misses_def)
  from state_invariants [of example_candidate
      "[StartSession, NewSequence, SubmitTrial [0, 1] [1, 0] ''2024-01-01 10:00:00'']" "[]"]
    open_state
  have a: "MIN_SPAN \<le> current_span engine_one_miss \<and> current_span engine_one_miss \<le> MAX_SPAN
   \<and> 1 \<le> current_trial engine_one_miss \<and> current_trial engine_one_miss \<le> TRIALS_PER_SPAN"
    unfolding run_one_miss by blast
  from state_invariants [of example_candidate
      "[StartSession, NewSequence, SubmitTrial [0, 1] [1, 0] ''2024-01-01 10:00:00'',
        NewSequence, SubmitTrial [3, 4] [4, 3] ''2024-01-01 10:00:09'']"
      "[SubmitTrial [0, 1] [0, 1] ''2024-01-01 10:00:20'', SaveSession ''2024-01-01 10:00:21'']"]
    closed_state
  have b: "finished (run (CorsiEngine_init example_candidate)
       ([StartSession, NewSequence, SubmitTrial [0, 1] [1, 0] ''2024-01-01 10:00:00'',
         NewSequence, SubmitTrial [3, 4] [4, 3] ''2024-01-01 10:00:09'']
        @ [SubmitTrial [0, 1] [0, 1] ''2024-01-01 10:00:20'', SaveSession ''2024-01-01 10:00:21'']))
   \<and> prefix (results engine_two_misses)
       (results (run (CorsiEngine_init example_candidate)
       ([StartSession, NewSequence, SubmitTrial [0, 1] [1, 0] ''2024-01-01 10:00:00'',
         NewSequence, SubmitTrial [3, 4] [4, 3] ''2024-01-01 10:00:09'']
        @ [SubmitTrial [0, 1] [0, 1] ''2024-01-01 10:00:20'', SaveSession ''2024-01-01 10:00:21''])))"
    unfolding run_two_misses by blast
  from a b open_state closed_state show ?thesis
    unfolding run_one_miss run_two_misses by blast
qed

section \<open>The session number of a start-session request\<close>

text \<open>
  Claim C9 (session-number validation) asks that a start-session request with a
  non-positive session number is rejected before a session is created. The endpoint of
  corsi-backend/main.py creates the engine and stores it under the new session id for
  the request with session number 0, and answers with the initial state; the summary
  saved at the end of that session carries the session number 0. The check
  \<^verbatim>\<open>session < 1\<close> exists in \<^verbatim>\<open>validate_candidate_info\<close> of the desktop task
  (lemma \<open>validate_candidate_info_nonpositive\<close>), which the endpoint does not call.
\<close>

theorem start_session_accepts_session_zero:
  "session candidate_session_zero = 0
   \<and> fst (api_start_session Map.empty ''6f1c'' candidate_session_zero) =
       \<lparr>response_session_id = ''6f1c'',
        response_state =
          \<lparr>state_span_length = 2, state_trial_number = 1, state_finished = False\<rparr>\<rparr>
   \<and> snd (api_start_session Map.empty ''6f1c'' candidate_session_zero) ''6f1c'' =
       Some \<lparr>info = candidate_session_zero, results = [], current_span = 2,
             current_trial = 1, finished = False\<rparr>"
  by (simp add: api_start_session_def Let_def CorsiEngine_init_def start_session_def
      state_of_def candidate_session_zero_def MIN_SPAN_def)

end
